theory Spec2Isabelle
  imports Complex_Main "HOL-Library.Sublist"
begin

section \<open>Run-time values\<close>

text \<open>
  The plan and the summary come out of \<^verbatim>\<open>response.json()\<close> and \<^verbatim>\<open>JSON.parse\<close> and are
  typed \<^verbatim>\<open>any\<close>: nothing in \<^verbatim>\<open>App.tsx\<close> validates them.  They are modelled as JavaScript
  values built from JSON, with \<open>Undefined\<close> for a missing property.  An object lists
  its own properties, each key once.  A number is a rational or one of the three special
  doubles; rounding is not modelled and nothing below depends on it.
\<close>

datatype jsnum = Finite rat | PosInfinity | NegInfinity | NaN

datatype jsval =
    Undefined
  | Null
  | Bool bool
  | Num jsnum
  | Str string
  | Arr "jsval list"
  | Obj "(string \<times> jsval) list"

text \<open>
  What a statement can do besides yielding a value.  \<open>TypeError\<close>, \<open>SyntaxError\<close> and
  \<open>Error\<close> are the exceptions of the source.  \<open>SparseWrite\<close> is not an exception: it marks
  the assignment \<^verbatim>\<open>newAgents[i] = { ...newAgents[i], ... }\<close> at an index beyond the end of
  the array, where JavaScript stores a record without \<^verbatim>\<open>id\<close>, \<^verbatim>\<open>type\<close>, \<^verbatim>\<open>x\<close>, \<^verbatim>\<open>y\<close> and
  \<^verbatim>\<open>status\<close>, which the interface \<^verbatim>\<open>Agent\<close> cannot hold; the model stops there.
  \<open>NotEnabled\<close> marks an event that the user interface does not offer in a state.
\<close>

datatype failure = TypeError | SyntaxError | Error string | SparseWrite | NotEnabled

definition andThen :: "failure + 'a \<Rightarrow> ('a \<Rightarrow> failure + 'b) \<Rightarrow> failure + 'b" where
  "andThen r f = (case r of Inl e \<Rightarrow> Inl e | Inr v \<Rightarrow> f v)"

text \<open>An awaited promise: it may stay pending for ever (no timeout is configured).\<close>

datatype 'a promise = NeverSettles | Rejects failure | Resolves 'a

text \<open>\<^verbatim>\<open>n.toString()\<close> for a non-negative integer.\<close>

definition digit_char :: "nat \<Rightarrow> char" where
  "digit_char d = ''0123456789'' ! (d mod 10)"

fun decimal :: "nat \<Rightarrow> string" where
  "decimal n = (if n < 10 then [digit_char n] else decimal (n div 10) @ [digit_char n])"

declare decimal.simps [simp del]

text \<open>\<^verbatim>\<open>s.padStart(2, '0')\<close>.\<close>

definition padStart2 :: "string \<Rightarrow> string" where
  "padStart2 s = replicate (2 - length s) (CHR ''0'') @ s"

text \<open>\<^verbatim>\<open>xs.join(sep)\<close> on strings already converted.\<close>

fun join :: "string \<Rightarrow> string list \<Rightarrow> string" where
  "join sep [] = []"
| "join sep [s] = s"
| "join sep (s # t # ts) = s @ sep @ join sep (t # ts)"

text \<open>
  The platform and the build: the key read from \<^verbatim>\<open>import.meta.env\<close>, \<^verbatim>\<open>JSON.parse\<close> on a
  string (\<open>None\<close> when it throws \<^verbatim>\<open>SyntaxError\<close>) and the conversion of a number to a
  string.  They are not code of \<^verbatim>\<open>App.tsx\<close> and are taken as parameters.
\<close>

record env =
  apiKey :: string
  parse_text :: "string \<Rightarrow> jsval option"
  number_text :: "jsnum \<Rightarrow> string"

text \<open>
  The conversion of a value to a string, as a template literal does it; inside an
  array, \<^verbatim>\<open>join\<close> turns \<^verbatim>\<open>null\<close> and \<^verbatim>\<open>undefined\<close> into the empty string.
\<close>

fun ToString :: "env \<Rightarrow> jsval \<Rightarrow> string" where
  "ToString E Undefined = ''undefined''"
| "ToString E Null = ''null''"
| "ToString E (Bool b) = (if b then ''true'' else ''false'')"
| "ToString E (Num n) = number_text E n"
| "ToString E (Str s) = s"
| "ToString E (Arr vs) =
     join '','' (map (\<lambda>v. if v = Undefined \<or> v = Null then [] else ToString E v) vs)"
| "ToString E (Obj kvs) = ''[object Object]''"

definition join_values :: "env \<Rightarrow> string \<Rightarrow> jsval list \<Rightarrow> string" where
  "join_values E sep vs =
     join sep (map (\<lambda>v. if v = Undefined \<or> v = Null then [] else ToString E v) vs)"

text \<open>\<^verbatim>\<open>JSON.parse(v)\<close>: the argument is converted to a string first.\<close>

definition JSON_parse :: "env \<Rightarrow> jsval \<Rightarrow> failure + jsval" where
  "JSON_parse E v = (case parse_text E (ToString E v) of None \<Rightarrow> Inl SyntaxError | Some j \<Rightarrow> Inr j)"

text \<open>
  \<^verbatim>\<open>v.k\<close> for the property names the source reads (\<^verbatim>\<open>candidates\<close>, \<^verbatim>\<open>content\<close>, \<^verbatim>\<open>parts\<close>,
  \<^verbatim>\<open>text\<close>, \<^verbatim>\<open>agents\<close>, \<^verbatim>\<open>name\<close>, \<^verbatim>\<open>specialty\<close>, \<^verbatim>\<open>task\<close>): none of them is a property of
  a string, number, boolean or array, so only an object can have one.
\<close>

fun get_prop :: "jsval \<Rightarrow> string \<Rightarrow> failure + jsval" where
  "get_prop Undefined k = Inl TypeError"
| "get_prop Null k = Inl TypeError"
| "get_prop (Obj kvs) k = Inr (case map_of kvs k of None \<Rightarrow> Undefined | Some v \<Rightarrow> v)"
| "get_prop v k = Inr Undefined"

text \<open>\<^verbatim>\<open>v[i]\<close> for a literal index.\<close>

fun get_index :: "jsval \<Rightarrow> nat \<Rightarrow> failure + jsval" where
  "get_index Undefined i = Inl TypeError"
| "get_index Null i = Inl TypeError"
| "get_index (Arr vs) i = Inr (if i < length vs then vs ! i else Undefined)"
| "get_index (Str s) i = Inr (if i < length s then Str [s ! i] else Undefined)"
| "get_index (Obj kvs) i = Inr (case map_of kvs (decimal i) of None \<Rightarrow> Undefined | Some v \<Rightarrow> v)"
| "get_index v i = Inr Undefined"

text \<open>The truth value of a value in a condition.\<close>

fun truthy :: "jsval \<Rightarrow> bool" where
  "truthy Undefined = False"
| "truthy Null = False"
| "truthy (Bool b) = b"
| "truthy (Num n) = (n \<noteq> NaN \<and> n \<noteq> Finite 0)"
| "truthy (Str s) = (s \<noteq> [])"
| "truthy v = True"

section \<open>Types of the component\<close>

datatype AgentType = Orchestrator | Specialist | Worker

datatype AgentStatus = idle | working | communicating | success

text \<open>
  The interface \<^verbatim>\<open>Agent\<close>.  The fields \<^verbatim>\<open>id\<close>, \<^verbatim>\<open>type\<close>, \<^verbatim>\<open>x\<close> and \<^verbatim>\<open>y\<close> are renamed, since
  a record field is a constant of the theory.  \<^verbatim>\<open>name\<close>, \<^verbatim>\<open>specialty\<close> and \<^verbatim>\<open>currentTask\<close>
  are declared as strings but are assigned from the unvalidated plan, so at run time
  they hold any value; an absent \<^verbatim>\<open>currentTask\<close> is \<open>Undefined\<close>.
\<close>

record Agent =
  agent_id :: string
  name :: jsval
  agent_type :: AgentType
  pos_x :: int
  pos_y :: int
  status :: AgentStatus
  specialty :: jsval
  currentTask :: jsval

text \<open>
  The interface \<^verbatim>\<open>LogEntry\<close>.  \<^verbatim>\<open>source\<close> is declared a string, and the execution step
  passes a name of the plan there.
\<close>

record LogEntry =
  log_id :: rat
  source :: jsval
  message :: string
  timestamp :: string

text \<open>What one call of \<^verbatim>\<open>addLog\<close> reads from the clock and the random generator.\<close>

record tick =
  date_now :: int
  math_random :: rat
  hours :: nat
  minutes :: nat
  seconds :: nat

text \<open>The state variables of \<^verbatim>\<open>AgenticMeshSimulation\<close>, with their initial values.\<close>

record mesh =
  agents :: "Agent list"
  logs :: "LogEntry list"
  selectedAgent :: "Agent option"
  simulationStep :: nat
  isSimulating :: bool
  userMission :: string
  isOrchestrating :: bool
  missionReport :: jsval
  isGeneratingReport :: bool

definition initial_mesh :: mesh where
  "initial_mesh =
     \<lparr>agents = [], logs = [], selectedAgent = None, simulationStep = 0, isSimulating = False,
      userMission = ''Plan a 3-day trip to Tokyo'', isOrchestrating = False,
      missionReport = Null, isGeneratingReport = False\<rparr>"

definition CANVAS_WIDTH :: int where "CANVAS_WIDTH = 800"
definition CANVAS_HEIGHT :: int where "CANVAS_HEIGHT = 500"
definition CENTER_X :: int where "CENTER_X = CANVAS_WIDTH div 2"
definition CENTER_Y :: int where "CENTER_Y = CANVAS_HEIGHT div 2"

section \<open>The log\<close>

definition timeString :: "tick \<Rightarrow> string" where
  "timeString c =
     padStart2 (decimal (hours c)) @ '':'' @ padStart2 (decimal (minutes c)) @ '':'' @
     padStart2 (decimal (seconds c))"

definition addLog :: "tick \<Rightarrow> jsval \<Rightarrow> string \<Rightarrow> mesh \<Rightarrow> mesh" where
  "addLog c src msg s =
     s\<lparr>logs := take 8 (\<lparr>log_id = of_int (date_now c) + math_random c, source = src,
                          message = msg, timestamp = timeString c\<rparr> # logs s)\<rparr>"

text \<open>A sequence of log appends, each with its own clock reading.\<close>

fun addLogs :: "(tick \<times> jsval \<times> string) list \<Rightarrow> mesh \<Rightarrow> mesh" where
  "addLogs [] s = s"
| "addLogs ((c, src, msg) # rest) s = addLogs rest (addLog c src msg s)"

section \<open>Status updates\<close>

definition set_status :: "string \<Rightarrow> AgentStatus \<Rightarrow> Agent list \<Rightarrow> Agent list" where
  "set_status i st prev = map (\<lambda>a. if agent_id a = i then a\<lparr>status := st\<rparr> else a) prev"

definition updateAgentStatus :: "string \<Rightarrow> AgentStatus \<Rightarrow> mesh \<Rightarrow> mesh" where
  "updateAgentStatus i st s = s\<lparr>agents := set_status i st (agents s)\<rparr>"

section \<open>The remote calls\<close>

text \<open>
  A request as the source builds it: the address with the key, the prompt, and whether
  the JSON response format is asked for.  \<open>fetch\<close> is the network's answer to it.
\<close>

record request =
  url :: string
  prompt :: string
  json_mode :: bool

record response =
  ok :: bool
  json :: "jsval promise"

type_synonym fetch = "request \<Rightarrow> response promise"

definition endpoint :: string where
  "endpoint = ''https://generativelanguage.googleapis.com/v1beta/models/gemini-2.5-flash-preview-09-2025:generateContent?key=''"

definition newline :: string where
  "newline = [CHR 0x0A]"

definition example_agent_line :: string where
  \<open>example_agent_line = ''        { "name": "Agent Name", "specialty": "Primary Skill", "task": "Specific action they will perform" }''\<close>

definition systemPrompt :: "string \<Rightarrow> string" where
  \<open>systemPrompt mission = join newline
     ['''',
      ''    You are the Orchestration Brain of an Agentic Mesh. '',
      ''    The user has a mission: "'' @ mission @ ''".'',
      ''    Identify 3 distinct specialist agent roles needed to accomplish this mission.'',
      ''    Return ONLY valid JSON in this format:'',
      ''    {'',
      ''      "agents": ['',
      example_agent_line @ '','',
      example_agent_line @ '','',
      example_agent_line,
      ''      ]'',
      ''    }'',
      ''  '']\<close>

definition plan_entry :: "string \<Rightarrow> string \<Rightarrow> string \<Rightarrow> jsval" where
  "plan_entry n sp t = Obj [(''name'', Str n), (''specialty'', Str sp), (''task'', Str t)]"

definition fallbackPlan :: jsval where
  "fallbackPlan = Obj [(''agents'', Arr
     [plan_entry ''Logic Bot'' ''Planning'' ''Analyzing requirements'',
      plan_entry ''Resource Bot'' ''Logistics'' ''Gathering resources'',
      plan_entry ''Review Bot'' ''Quality Control'' ''Verifying output''])]"

text \<open>\<^verbatim>\<open>data.candidates[0].content.parts[0].text\<close>\<close>

definition response_text :: "jsval \<Rightarrow> failure + jsval" where
  "response_text data =
     andThen (get_prop data ''candidates'') (\<lambda>cs.
     andThen (get_index cs 0) (\<lambda>c.
     andThen (get_prop c ''content'') (\<lambda>ct.
     andThen (get_prop ct ''parts'') (\<lambda>ps.
     andThen (get_index ps 0) (\<lambda>p.
     get_prop p ''text'')))))"

text \<open>
  The body of the \<^verbatim>\<open>try\<close> of \<^verbatim>\<open>callGeminiOrchestrator\<close>: \<open>None\<close> when an awaited promise
  never settles, \<open>Some (Inl e)\<close> when it throws \<open>e\<close>, \<open>Some (Inr v)\<close> when it returns \<open>v\<close>.
\<close>

definition orchestrator_try :: "env \<Rightarrow> fetch \<Rightarrow> string \<Rightarrow> (failure + jsval) option" where
  "orchestrator_try E fetch mission =
     (if apiKey E = [] then Some (Inl (Error ''No API key provided''))
      else case fetch \<lparr>url = endpoint @ apiKey E, prompt = systemPrompt mission, json_mode = True\<rparr> of
          NeverSettles \<Rightarrow> None
        | Rejects e \<Rightarrow> Some (Inl e)
        | Resolves r \<Rightarrow>
            if \<not> ok r then Some (Inl (Error ''API Call Failed''))
            else (case json r of
                NeverSettles \<Rightarrow> None
              | Rejects e \<Rightarrow> Some (Inl e)
              | Resolves data \<Rightarrow> Some (andThen (response_text data) (JSON_parse E))))"

definition callGeminiOrchestrator :: "env \<Rightarrow> fetch \<Rightarrow> string \<Rightarrow> jsval option" where
  "callGeminiOrchestrator E fetch mission =
     map_option (\<lambda>r. case r of Inl e \<Rightarrow> fallbackPlan | Inr plan \<Rightarrow> plan)
       (orchestrator_try E fetch mission)"

definition logText :: "env \<Rightarrow> LogEntry list \<Rightarrow> string" where
  "logText E ls = join newline (map (\<lambda>l. ''['' @ ToString E (source l) @ '']: '' @ message l) ls)"

definition summaryPrompt :: "env \<Rightarrow> LogEntry list \<Rightarrow> string" where
  "summaryPrompt E ls = join newline
     ['''',
      ''    Summarize this agentic workflow execution in 2-3 sentences. '',
      ''    Highlight how the agents collaborated.'',
      ''    Logs:'',
      ''    '' @ logText E ls,
      ''  '']"

definition fallbackSummary :: string where
  "fallbackSummary = ''Mission completed successfully. Agents collaborated to fulfill the user request.''"

text \<open>The body of the \<^verbatim>\<open>try\<close> of \<^verbatim>\<open>callGeminiSummary\<close>; it does not read \<^verbatim>\<open>response.ok\<close>.\<close>

definition summary_try :: "env \<Rightarrow> fetch \<Rightarrow> LogEntry list \<Rightarrow> (failure + jsval) option" where
  "summary_try E fetch ls =
     (if apiKey E = [] then Some (Inl (Error ''No API key provided''))
      else case fetch \<lparr>url = endpoint @ apiKey E, prompt = summaryPrompt E ls, json_mode = False\<rparr> of
          NeverSettles \<Rightarrow> None
        | Rejects e \<Rightarrow> Some (Inl e)
        | Resolves r \<Rightarrow>
            (case json r of
                NeverSettles \<Rightarrow> None
              | Rejects e \<Rightarrow> Some (Inl e)
              | Resolves data \<Rightarrow> Some (response_text data)))"

definition callGeminiSummary :: "env \<Rightarrow> fetch \<Rightarrow> LogEntry list \<Rightarrow> jsval option" where
  "callGeminiSummary E fetch ls =
     map_option (\<lambda>r. case r of Inl e \<Rightarrow> Str fallbackSummary | Inr v \<Rightarrow> v)
       (summary_try E fetch ls)"

section \<open>Mapping the plan onto the agents\<close>

text \<open>\<^verbatim>\<open>orchestratorPlan.agents[i]\<close>\<close>

definition plan_agent :: "jsval \<Rightarrow> nat \<Rightarrow> failure + jsval" where
  "plan_agent plan i = andThen (get_prop plan ''agents'') (\<lambda>ags. get_index ags i)"

text \<open>
  \<^verbatim>\<open>if (entry) newAgents[i] = { ...newAgents[i], name: entry.name, specialty: entry.specialty,
  currentTask: entry.task }\<close>
\<close>

definition patch_slot :: "nat \<Rightarrow> jsval \<Rightarrow> Agent list \<Rightarrow> failure + Agent list" where
  "patch_slot i entry newAgents =
     (if truthy entry then
        andThen (get_prop entry ''name'') (\<lambda>n.
        andThen (get_prop entry ''specialty'') (\<lambda>sp.
        andThen (get_prop entry ''task'') (\<lambda>t.
          if i < length newAgents
          then Inr (newAgents[i := (newAgents ! i)\<lparr>name := n, specialty := sp, currentTask := t\<rparr>])
          else Inl SparseWrite)))
      else Inr newAgents)"

text \<open>The updater passed to \<^verbatim>\<open>setAgents\<close> once the plan is there.\<close>

definition mapPlan :: "jsval \<Rightarrow> Agent list \<Rightarrow> failure + Agent list" where
  "mapPlan plan prev =
     andThen (plan_agent plan 0) (\<lambda>e0. andThen (patch_slot 1 e0 prev) (\<lambda>a1.
     andThen (plan_agent plan 1) (\<lambda>e1. andThen (patch_slot 2 e1 a1) (\<lambda>a2.
     andThen (plan_agent plan 2) (\<lambda>e2. patch_slot 3 e2 a2)))))"

section \<open>The timed steps\<close>

text \<open>
  A step whose log line reads the plan throws when the plan lacks what it reads; the
  exception is uncaught in the timer task, the state updates made before it stay, and
  the log line is not added.
\<close>

fun names_of :: "jsval list \<Rightarrow> failure + jsval list" where
  "names_of [] = Inr []"
| "names_of (a # rest) =
     andThen (get_prop a ''name'') (\<lambda>n. andThen (names_of rest) (\<lambda>ns. Inr (n # ns)))"

text \<open>\<^verbatim>\<open>orchestratorPlan.agents.map((a: any) => a.name).join(', ')\<close>\<close>

definition role_names :: "env \<Rightarrow> jsval \<Rightarrow> failure + string" where
  "role_names E plan =
     andThen (get_prop plan ''agents'') (\<lambda>ags.
       case ags of
         Arr vs \<Rightarrow> andThen (names_of vs) (\<lambda>ns. Inr (join_values E '', '' ns))
       | _ \<Rightarrow> Inl TypeError)"

definition step_orchestration :: "env \<Rightarrow> tick \<Rightarrow> jsval \<Rightarrow> mesh \<Rightarrow> mesh" where
  "step_orchestration E c plan s =
     (let s1 = updateAgentStatus ''1'' working (s\<lparr>simulationStep := 2\<rparr>) in
      case role_names E plan of
        Inl e \<Rightarrow> s1
      | Inr roles \<Rightarrow>
          addLog c (Str ''Orchestrator LLM'')
            (''Decomposed mission. Assigning roles: '' @ roles @ ''.'') s1)"

definition plan_specialty :: "jsval \<Rightarrow> nat \<Rightarrow> failure + jsval" where
  "plan_specialty plan i = andThen (plan_agent plan i) (\<lambda>a. get_prop a ''specialty'')"

definition step_discovery :: "env \<Rightarrow> tick \<Rightarrow> jsval \<Rightarrow> mesh \<Rightarrow> mesh" where
  "step_discovery E c plan s =
     (let s1 = s\<lparr>simulationStep := 3\<rparr> in
      case andThen (plan_specialty plan 0) (\<lambda>a. andThen (plan_specialty plan 1) (\<lambda>b. Inr (a, b))) of
        Inl e \<Rightarrow> s1
      | Inr (a, b) \<Rightarrow>
          addLog c (Str ''Registry'')
            (''Lookup successful: Found specialized agents for '' @ ToString E a @ '' and '' @
             ToString E b @ ''.'') s1)"

definition step_distribution :: "tick \<Rightarrow> mesh \<Rightarrow> mesh" where
  "step_distribution c s =
     addLog c (Str ''Mesh'') ''Task protocols distributed to agents.''
       (updateAgentStatus ''4'' working
         (updateAgentStatus ''3'' working
           (updateAgentStatus ''2'' working
             (updateAgentStatus ''1'' communicating (s\<lparr>simulationStep := 4\<rparr>)))))"

text \<open>The two arguments of \<^verbatim>\<open>addLog(plan.agents[i].name, `${plan.agents[i].task}...`)\<close>.\<close>

definition task_line :: "env \<Rightarrow> jsval \<Rightarrow> nat \<Rightarrow> string \<Rightarrow> failure + jsval \<times> string" where
  "task_line E plan i ending =
     andThen (plan_agent plan i) (\<lambda>a.
     andThen (get_prop a ''name'') (\<lambda>n.
     andThen (get_prop a ''task'') (\<lambda>t. Inr (n, ToString E t @ ending))))"

definition step_execution :: "env \<Rightarrow> tick \<Rightarrow> tick \<Rightarrow> jsval \<Rightarrow> mesh \<Rightarrow> mesh" where
  "step_execution E c1 c2 plan s =
     (let s1 = updateAgentStatus ''5'' working
                 (updateAgentStatus ''2'' communicating (s\<lparr>simulationStep := 5\<rparr>)) in
      case task_line E plan 0 '' - Complete.'' of
        Inl e \<Rightarrow> s1
      | Inr (src, msg) \<Rightarrow>
          (let s2 = addLog c1 src msg s1 in
           case task_line E plan 1 '' - In Progress.'' of
             Inl e \<Rightarrow> s2
           | Inr (src', msg') \<Rightarrow> addLog c2 src' msg' s2))"

definition step_completion :: "tick \<Rightarrow> mesh \<Rightarrow> mesh" where
  "step_completion c s =
     (addLog c (Str ''Monitor'') ''Workflow completed successfully. Results aggregated.''
        (s\<lparr>simulationStep := 6, agents := map (\<lambda>a. a\<lparr>status := success\<rparr>) (agents s)\<rparr>))
     \<lparr>isSimulating := False\<rparr>"

section \<open>Reset\<close>

definition initialAgents :: "Agent list" where
  "initialAgents =
     [\<lparr>agent_id = ''1'', name = Str ''Orchestrator'', agent_type = Orchestrator,
       pos_x = CENTER_X, pos_y = CENTER_Y, status = idle,
       specialty = Str ''Coordination'', currentTask = Str ''Awaiting Mission''\<rparr>,
      \<lparr>agent_id = ''2'', name = Str ''Specialist A'', agent_type = Specialist,
       pos_x = CENTER_X - 100, pos_y = CENTER_Y - 80, status = idle,
       specialty = Str ''Pending...'', currentTask = Str ''Standby''\<rparr>,
      \<lparr>agent_id = ''3'', name = Str ''Specialist B'', agent_type = Specialist,
       pos_x = CENTER_X + 100, pos_y = CENTER_Y - 80, status = idle,
       specialty = Str ''Pending...'', currentTask = Str ''Standby''\<rparr>,
      \<lparr>agent_id = ''4'', name = Str ''Worker A'', agent_type = Worker,
       pos_x = CENTER_X - 120, pos_y = CENTER_Y + 60, status = idle,
       specialty = Str ''Pending...'', currentTask = Str ''Standby''\<rparr>,
      \<lparr>agent_id = ''5'', name = Str ''Support Bot'', agent_type = Worker,
       pos_x = CENTER_X + 120, pos_y = CENTER_Y + 60, status = idle,
       specialty = Str ''Utilities'', currentTask = Str ''Standby''\<rparr>]"

definition resetSimulation :: "tick \<Rightarrow> mesh \<Rightarrow> mesh" where
  "resetSimulation c s =
     addLog c (Str ''System'') ''Agentic Mesh Online. Enter a mission to begin.''
       (s\<lparr>agents := initialAgents, simulationStep := 0, logs := [], missionReport := Null\<rparr>)"

section \<open>The component with its timers and pending calls\<close>

text \<open>
  The five callbacks registered by \<^verbatim>\<open>startSimulation\<close>, named after the comments of the
  source.  A timer holds its due time and the plan its closure captured.
\<close>

datatype callback = Orchestration | Discovery | Distribution | Execution | Completion

datatype timer = Timer (due: nat) (action: callback) (captured: jsval)

text \<open>
  \<open>plan_calls\<close> and \<open>summary_calls\<close> are the calls of \<^verbatim>\<open>startSimulation\<close> and
  \<^verbatim>\<open>generateReport\<close> suspended at their \<^verbatim>\<open>await\<close>, with the argument each one passed.
\<close>

record world =
  ui :: mesh
  timers :: "timer list"
  clock :: nat
  plan_calls :: "string list"
  summary_calls :: "LogEntry list list"

text \<open>Timers fire by due time, and in the order of registration when due together.\<close>

fun enqueue :: "timer \<Rightarrow> timer list \<Rightarrow> timer list" where
  "enqueue t [] = [t]"
| "enqueue t (u # us) = (if due u \<le> due t then u # enqueue t us else t # u # us)"

definition setTimeout :: "callback \<Rightarrow> jsval \<Rightarrow> nat \<Rightarrow> world \<Rightarrow> world" where
  "setTimeout f plan delay w = w\<lparr>timers := enqueue (Timer (clock w + delay) f plan) (timers w)\<rparr>"

definition run_callback :: "env \<Rightarrow> tick \<Rightarrow> tick \<Rightarrow> timer \<Rightarrow> mesh \<Rightarrow> mesh" where
  "run_callback E c1 c2 t s =
     (case action t of
        Orchestration \<Rightarrow> step_orchestration E c1 (captured t) s
      | Discovery \<Rightarrow> step_discovery E c1 (captured t) s
      | Distribution \<Rightarrow> step_distribution c1 s
      | Execution \<Rightarrow> step_execution E c1 c2 (captured t) s
      | Completion \<Rightarrow> step_completion c1 s)"

text \<open>\<^verbatim>\<open>startSimulation\<close> up to its \<^verbatim>\<open>await\<close>.\<close>

definition startSimulation_begin :: "tick \<Rightarrow> tick \<Rightarrow> world \<Rightarrow> world" where
  \<open>startSimulation_begin c1 c2 w =
     (if isSimulating (ui w) \<or> isOrchestrating (ui w) then w
      else w\<lparr>ui :=
                addLog c2 (Str ''Orchestrator LLM'') ''Consulting Gemini API for agent decomposition...''
                  (addLog c1 (Str ''User'') (''Request received: "'' @ userMission (ui w) @ ''"'')
                     ((ui w)\<lparr>isOrchestrating := True, missionReport := Null, simulationStep := 0,
                             logs := []\<rparr>)),
              plan_calls := plan_calls w @ [userMission (ui w)]\<rparr>)\<close>

text \<open>
  \<^verbatim>\<open>startSimulation\<close> after its \<^verbatim>\<open>await\<close>, with the plan the call returned.  When the updater
  of \<^verbatim>\<open>setAgents\<close> throws, the component cannot render its next state.
\<close>

definition startSimulation_resume :: "jsval \<Rightarrow> world \<Rightarrow> failure + world" where
  "startSimulation_resume plan w =
     andThen (mapPlan plan (agents (ui w))) (\<lambda>newAgents.
       Inr (setTimeout Completion plan 11500
             (setTimeout Execution plan 8500
               (setTimeout Distribution plan 5500
                 (setTimeout Discovery plan 3500
                   (setTimeout Orchestration plan 1500
                     (w\<lparr>ui := (ui w)\<lparr>agents := newAgents, isOrchestrating := False,
                                      isSimulating := True, simulationStep := 1\<rparr>\<rparr>)))))))"

definition generateReport_begin :: "world \<Rightarrow> world" where
  "generateReport_begin w =
     w\<lparr>ui := (ui w)\<lparr>isGeneratingReport := True\<rparr>,
       summary_calls := summary_calls w @ [logs (ui w)]\<rparr>"

definition generateReport_resume :: "jsval \<Rightarrow> world \<Rightarrow> world" where
  "generateReport_resume summary w =
     w\<lparr>ui := (ui w)\<lparr>missionReport := summary, isGeneratingReport := False\<rparr>\<rparr>"

text \<open>
  What can happen to the component: time passes, a control is used, an awaited call
  returns, the next due timer fires.  A control that is disabled or not rendered is
  \<open>NotEnabled\<close>, as is the return of a call that never returns.
\<close>

datatype event =
    Elapse nat
  | ClickStart tick tick
  | PlanReturns fetch
  | TimerFires tick tick
  | ClickReset tick
  | TypeMission string
  | ClickAgent nat
  | CloseDetails
  | ClickReport
  | SummaryReturns fetch

fun step :: "env \<Rightarrow> event \<Rightarrow> world \<Rightarrow> failure + world" where
  "step E (Elapse d) w = Inr (w\<lparr>clock := clock w + d\<rparr>)"
| "step E (ClickStart c1 c2) w =
     (if isSimulating (ui w) \<or> isOrchestrating (ui w) \<or> userMission (ui w) = []
      then Inl NotEnabled else Inr (startSimulation_begin c1 c2 w))"
| "step E (PlanReturns f) w =
     (case plan_calls w of
        [] \<Rightarrow> Inl NotEnabled
      | mission # rest \<Rightarrow>
          (case callGeminiOrchestrator E f mission of
             None \<Rightarrow> Inl NotEnabled
           | Some plan \<Rightarrow> startSimulation_resume plan (w\<lparr>plan_calls := rest\<rparr>)))"
| "step E (TimerFires c1 c2) w =
     (case timers w of
        [] \<Rightarrow> Inl NotEnabled
      | t # rest \<Rightarrow>
          if due t \<le> clock w
          then Inr (w\<lparr>ui := run_callback E c1 c2 t (ui w), timers := rest\<rparr>)
          else Inl NotEnabled)"
| "step E (ClickReset c) w = Inr (w\<lparr>ui := resetSimulation c (ui w)\<rparr>)"
| "step E (TypeMission m) w =
     (if isSimulating (ui w) \<or> isOrchestrating (ui w) then Inl NotEnabled
      else Inr (w\<lparr>ui := (ui w)\<lparr>userMission := m\<rparr>\<rparr>))"
| "step E (ClickAgent i) w =
     (if i < length (agents (ui w))
      then Inr (w\<lparr>ui := (ui w)\<lparr>selectedAgent := Some (agents (ui w) ! i)\<rparr>\<rparr>)
      else Inl NotEnabled)"
| "step E CloseDetails w =
     (if selectedAgent (ui w) = None then Inl NotEnabled
      else Inr (w\<lparr>ui := (ui w)\<lparr>selectedAgent := None\<rparr>\<rparr>))"
| "step E ClickReport w =
     (if simulationStep (ui w) = 6 \<and> \<not> truthy (missionReport (ui w)) \<and> \<not> isGeneratingReport (ui w)
      then Inr (generateReport_begin w) else Inl NotEnabled)"
| "step E (SummaryReturns f) w =
     (case summary_calls w of
        [] \<Rightarrow> Inl NotEnabled
      | ls # rest \<Rightarrow>
          (case callGeminiSummary E f ls of
             None \<Rightarrow> Inl NotEnabled
           | Some summary \<Rightarrow> Inr (generateReport_resume summary (w\<lparr>summary_calls := rest\<rparr>))))"

fun run :: "env \<Rightarrow> event list \<Rightarrow> world \<Rightarrow> failure + world" where
  "run E [] w = Inr w"
| "run E (ev # evs) w = andThen (step E ev w) (run E evs)"

text \<open>The component once mounted: the effect has called \<^verbatim>\<open>resetSimulation\<close>.\<close>

definition mounted :: "tick \<Rightarrow> world" where
  "mounted c =
     \<lparr>ui = resetSimulation c initial_mesh, timers = [], clock = 0, plan_calls = [],
      summary_calls = []\<rparr>"

text \<open>The invariant of the agent list: five records, with their ids and roles.\<close>

definition five_agents :: "Agent list \<Rightarrow> bool" where
  "five_agents xs \<longleftrightarrow>
     map agent_id xs = [''1'', ''2'', ''3'', ''4'', ''5''] \<and>
     map agent_type xs = [Orchestrator, Specialist, Specialist, Worker, Worker]"

section \<open>Predicates of the statements\<close>

text \<open>An agent record with the three fields taken from an entry of the plan.\<close>

definition with_plan_entry :: "string \<Rightarrow> string \<Rightarrow> string \<Rightarrow> Agent \<Rightarrow> Agent" where
  "with_plan_entry n sp t a = a\<lparr>name := Str n, specialty := Str sp, currentTask := Str t\<rparr>"

text \<open>
  The ways the remote plan call can fail: no key, a rejected request, a response that
  is not a success, a body that cannot be read as JSON, a body without the text at
  \<^verbatim>\<open>candidates[0].content.parts[0].text\<close>, a text that \<^verbatim>\<open>JSON.parse\<close> rejects.
\<close>

definition plan_call_fails :: "env \<Rightarrow> fetch \<Rightarrow> string \<Rightarrow> bool" where
  "plan_call_fails E f m \<longleftrightarrow>
     apiKey E = [] \<or>
     (case f \<lparr>url = endpoint @ apiKey E, prompt = systemPrompt m, json_mode = True\<rparr> of
        NeverSettles \<Rightarrow> False
      | Rejects e \<Rightarrow> True
      | Resolves r \<Rightarrow>
          \<not> ok r \<or>
          (case json r of
             NeverSettles \<Rightarrow> False
           | Rejects e \<Rightarrow> True
           | Resolves data \<Rightarrow>
               (case response_text data of
                  Inl e \<Rightarrow> True
                | Inr t \<Rightarrow> parse_text E (ToString E t) = None)))"

text \<open>A value of the shape \<^verbatim>\<open>{agents: [r, r, r]}\<close> with three \<^verbatim>\<open>{name, specialty, task}\<close> records.\<close>

definition is_record :: "jsval \<Rightarrow> bool" where
  "is_record v =
     (case v of
        Obj kvs \<Rightarrow>
          (case (map_of kvs ''name'', map_of kvs ''specialty'', map_of kvs ''task'') of
             (Some (Str n), Some (Str sp), Some (Str t)) \<Rightarrow> True
           | _ \<Rightarrow> False)
      | _ \<Rightarrow> False)"

definition three_records :: "jsval \<Rightarrow> bool" where
  "three_records plan =
     (case plan of
        Obj kvs \<Rightarrow>
          (case map_of kvs ''agents'' of
             Some (Arr [a, b, c]) \<Rightarrow> is_record a \<and> is_record b \<and> is_record c
           | _ \<Rightarrow> False)
      | _ \<Rightarrow> False)"

text \<open>
  How the flags, the pending plan call and the pending timers go together: a plan call
  is pending exactly while \<^verbatim>\<open>isOrchestrating\<close> is set, and there is at most one; while
  \<^verbatim>\<open>isSimulating\<close> is set the timers of one run are pending, the completion step last;
  otherwise no timer is pending and the stage is 0 or 6.
\<close>

definition run_inv :: "world \<Rightarrow> bool" where
  "run_inv w \<longleftrightarrow>
     (isOrchestrating (ui w) \<longleftrightarrow> plan_calls w \<noteq> []) \<and>
     length (plan_calls w) \<le> 1 \<and>
     (isSimulating (ui w) \<longrightarrow>
        \<not> isOrchestrating (ui w) \<and> timers w \<noteq> [] \<and> action (last (timers w)) = Completion \<and>
        Completion \<notin> action ` set (butlast (timers w))) \<and>
     (\<not> isSimulating (ui w) \<longrightarrow> timers w = [] \<and> simulationStep (ui w) \<in> {0, 6})"

section \<open>Concrete inputs\<close>

definition noon :: tick where
  "noon = \<lparr>date_now = 1700000000000, math_random = 1 / 2, hours = 12, minutes = 0, seconds = 7\<rparr>"

definition lobby :: mesh where
  "lobby = resetSimulation noon initial_mesh"

text \<open>No key is configured.\<close>

definition offline :: env where
  "offline = \<lparr>apiKey = [], parse_text = (\<lambda>t. None), number_text = (\<lambda>n. [])\<rparr>"

definition keyed :: env where
  "keyed = \<lparr>apiKey = ''key'', parse_text = (\<lambda>t. None), number_text = (\<lambda>n. [])\<rparr>"

definition unreachable :: fetch where
  "unreachable req = Rejects TypeError"

text \<open>A response body with one part at \<^verbatim>\<open>candidates[0].content.parts[0]\<close>.\<close>

definition reply :: "jsval \<Rightarrow> jsval" where
  "reply part = Obj [(''candidates'', Arr [Obj [(''content'', Obj [(''parts'', Arr [part])])]])]"

text \<open>A response that is not a success and still carries a text.\<close>

definition gateway_error :: fetch where
  "gateway_error req = Resolves \<lparr>ok = False, json = Resolves (reply (Obj [(''text'', Str ''partial'')]))\<rparr>"

text \<open>A successful response whose part has no text.\<close>

definition textless :: fetch where
  "textless req = Resolves \<lparr>ok = True, json = Resolves (reply (Obj []))\<rparr>"

text \<open>A successful response whose text is valid JSON with a single, incomplete record.\<close>

definition solo_text :: string where
  \<open>solo_text = ''{"agents":[{"name":"Solo"}]}''\<close>

definition solo_plan :: jsval where
  "solo_plan = Obj [(''agents'', Arr [Obj [(''name'', Str ''Solo'')]])]"

definition solo_env :: env where
  "solo_env = \<lparr>apiKey = ''key'', parse_text = (\<lambda>t. if t = solo_text then Some solo_plan else None),
                number_text = (\<lambda>n. [])\<rparr>"

definition solo_fetch :: fetch where
  "solo_fetch req = Resolves \<lparr>ok = True, json = Resolves (reply (Obj [(''text'', Str solo_text)]))\<rparr>"

definition started :: "event list" where
  "started = [ClickStart noon noon, PlanReturns unreachable]"

definition abandoned_run :: "event list" where
  "abandoned_run =
     [ClickStart noon noon, PlanReturns unreachable, ClickReset noon, Elapse 1500]"

definition whole_run :: "event list" where
  "whole_run =
     [ClickStart noon noon, PlanReturns unreachable, Elapse 11500, TimerFires noon noon,
      TimerFires noon noon, TimerFires noon noon, TimerFires noon noon]"

text \<open>One run from typing the mission to the last timer, with the clock readings \<open>cs\<close>.\<close>

definition one_run :: "string \<Rightarrow> (nat \<Rightarrow> tick) \<Rightarrow> fetch \<Rightarrow> event list" where
  "one_run m cs f =
     [TypeMission m, ClickStart (cs 0) (cs 1), PlanReturns f, Elapse 11500,
      TimerFires (cs 2) (cs 2), TimerFires (cs 3) (cs 3), TimerFires (cs 4) (cs 4),
      TimerFires (cs 5) (cs 6), TimerFires (cs 7) (cs 7)]"

section \<open>Appending to the log\<close>

lemma addLog_length: "length (logs (addLog c src msg s)) \<le> 8"
  by (simp add: addLog_def)

lemma addLogs_length:
  "ops \<noteq> [] \<or> length (logs s) \<le> 8 \<Longrightarrow> length (logs (addLogs ops s)) \<le> 8"
proof (induction ops arbitrary: s)
  case Nil
  then show ?case by simp
next
  case (Cons op ops)
  obtain c src msg where op: "op = (c, src, msg)" by (cases op) auto
  have "length (logs (addLog c src msg s)) \<le> 8" by (rule addLog_length)
  then have "length (logs (addLogs ops (addLog c src msg s))) \<le> 8"
    using Cons.IH by blast
  then show ?case by (simp add: op)
qed

section \<open>The single-agent status update\<close>

lemma set_status_nth:
  "k < length xs \<Longrightarrow>
   set_status i st xs ! k = (if agent_id (xs ! k) = i then (xs ! k)\<lparr>status := st\<rparr> else xs ! k)"
  by (simp add: set_status_def)

lemma set_status_absent: "i \<notin> agent_id ` set xs \<Longrightarrow> set_status i st xs = xs"
  unfolding set_status_def by (induction xs) auto

lemma set_status_fields:
  "map agent_id (set_status i st xs) = map agent_id xs"
  "map name (set_status i st xs) = map name xs"
  "map agent_type (set_status i st xs) = map agent_type xs"
  "map pos_x (set_status i st xs) = map pos_x xs"
  "map pos_y (set_status i st xs) = map pos_y xs"
  "map specialty (set_status i st xs) = map specialty xs"
  "map currentTask (set_status i st xs) = map currentTask xs"
  by (simp_all add: set_status_def)

text \<open>
  C10.  \<^verbatim>\<open>updateAgentStatus\<close> changes nothing of the state but the agent list; the list
  keeps its length and order; the record at each position is the old one with the new
  status when its id is the given one, and the old one otherwise; every field other
  than the status is the same at every position; and when no agent has the given id the
  state is unchanged.
\<close>

theorem updateAgentStatus_frame:
  "updateAgentStatus i st s = s\<lparr>agents := agents (updateAgentStatus i st s)\<rparr> \<and>
   length (agents (updateAgentStatus i st s)) = length (agents s) \<and>
   (\<forall>k < length (agents s).
      agents (updateAgentStatus i st s) ! k =
        (if agent_id (agents s ! k) = i then (agents s ! k)\<lparr>status := st\<rparr> else agents s ! k)) \<and>
   map agent_id (agents (updateAgentStatus i st s)) = map agent_id (agents s) \<and>
   map name (agents (updateAgentStatus i st s)) = map name (agents s) \<and>
   map agent_type (agents (updateAgentStatus i st s)) = map agent_type (agents s) \<and>
   map pos_x (agents (updateAgentStatus i st s)) = map pos_x (agents s) \<and>
   map pos_y (agents (updateAgentStatus i st s)) = map pos_y (agents s) \<and>
   map specialty (agents (updateAgentStatus i st s)) = map specialty (agents s) \<and>
   map currentTask (agents (updateAgentStatus i st s)) = map currentTask (agents s) \<and>
   (i \<notin> agent_id ` set (agents s) \<longrightarrow> updateAgentStatus i st s = s)"
  by (simp add: updateAgentStatus_def set_status_fields set_status_nth set_status_absent)
    (simp add: set_status_def)

theorem updateAgentStatus_frame_witness:
  "(1::nat) < length (agents lobby) \<and>
   agents (updateAgentStatus ''2'' working lobby) ! 1 = (agents lobby ! 1)\<lparr>status := working\<rparr> \<and>
   agents (updateAgentStatus ''2'' working lobby) ! 0 = agents lobby ! 0 \<and>
   ''9'' \<notin> agent_id ` set (agents lobby) \<and> updateAgentStatus ''9'' success lobby = lobby"
  using updateAgentStatus_frame [of "''2''" working lobby] updateAgentStatus_frame [of "''9''" success lobby]
  by (simp add: lobby_def resetSimulation_def addLog_def initialAgents_def)

section \<open>What each operation does to the agents, the stage and the flags\<close>

lemma addLog_proj [simp]:
  "agents (addLog c src msg s) = agents s"
  "simulationStep (addLog c src msg s) = simulationStep s"
  "isSimulating (addLog c src msg s) = isSimulating s"
  "isOrchestrating (addLog c src msg s) = isOrchestrating s"
  by (simp_all add: addLog_def)

lemma updateAgentStatus_proj [simp]:
  "agents (updateAgentStatus i st s) = set_status i st (agents s)"
  "simulationStep (updateAgentStatus i st s) = simulationStep s"
  "isSimulating (updateAgentStatus i st s) = isSimulating s"
  "isOrchestrating (updateAgentStatus i st s) = isOrchestrating s"
  by (simp_all add: updateAgentStatus_def)

lemma step_orchestration_proj:
  "agents (step_orchestration E c plan s) = set_status ''1'' working (agents s)"
  "simulationStep (step_orchestration E c plan s) = 2"
  "isSimulating (step_orchestration E c plan s) = isSimulating s"
  "isOrchestrating (step_orchestration E c plan s) = isOrchestrating s"
  by (simp_all add: step_orchestration_def Let_def split: sum.split)

lemma step_discovery_proj:
  "agents (step_discovery E c plan s) = agents s"
  "simulationStep (step_discovery E c plan s) = 3"
  "isSimulating (step_discovery E c plan s) = isSimulating s"
  "isOrchestrating (step_discovery E c plan s) = isOrchestrating s"
  by (simp_all add: step_discovery_def Let_def split: sum.split prod.split)

lemma step_distribution_proj:
  "agents (step_distribution c s) =
     set_status ''4'' working (set_status ''3'' working (set_status ''2'' working
       (set_status ''1'' communicating (agents s))))"
  "simulationStep (step_distribution c s) = 4"
  "isSimulating (step_distribution c s) = isSimulating s"
  "isOrchestrating (step_distribution c s) = isOrchestrating s"
  by (simp_all add: step_distribution_def)

lemma step_execution_proj:
  "agents (step_execution E c1 c2 plan s) =
     set_status ''5'' working (set_status ''2'' communicating (agents s))"
  "simulationStep (step_execution E c1 c2 plan s) = 5"
  "isSimulating (step_execution E c1 c2 plan s) = isSimulating s"
  "isOrchestrating (step_execution E c1 c2 plan s) = isOrchestrating s"
  by (simp_all add: step_execution_def Let_def split: sum.split prod.split)

lemma step_completion_proj:
  "agents (step_completion c s) = map (\<lambda>a. a\<lparr>status := success\<rparr>) (agents s)"
  "simulationStep (step_completion c s) = 6"
  "isSimulating (step_completion c s) = False"
  "isOrchestrating (step_completion c s) = isOrchestrating s"
  by (simp_all add: step_completion_def)

lemma resetSimulation_proj:
  "agents (resetSimulation c s) = initialAgents"
  "simulationStep (resetSimulation c s) = 0"
  "isSimulating (resetSimulation c s) = isSimulating s"
  "isOrchestrating (resetSimulation c s) = isOrchestrating s"
  by (simp_all add: resetSimulation_def)

lemma run_callback_flags:
  "isOrchestrating (run_callback E c1 c2 t s) = isOrchestrating s"
  "isSimulating (run_callback E c1 c2 t s) = (isSimulating s \<and> action t \<noteq> Completion)"
  "action t = Completion \<Longrightarrow> simulationStep (run_callback E c1 c2 t s) = 6"
  by (cases "action t";
      simp add: run_callback_def step_orchestration_proj step_discovery_proj
        step_distribution_proj step_execution_proj step_completion_proj)+

lemma setTimeout_ui [simp]: "ui (setTimeout f plan d w) = ui w"
  by (simp add: setTimeout_def)

lemma startSimulation_begin_agents [simp]:
  "agents (ui (startSimulation_begin c1 c2 w)) = agents (ui w)"
  by (simp add: startSimulation_begin_def)

lemma startSimulation_resume_agents:
  "startSimulation_resume plan w = Inr w' \<Longrightarrow> mapPlan plan (agents (ui w)) = Inr (agents (ui w'))"
  by (auto simp add: startSimulation_resume_def andThen_def split: sum.splits)

lemma startSimulation_resume_shape:
  assumes "startSimulation_resume plan w = Inr w'" and "timers w = []"
  shows "isSimulating (ui w')" "\<not> isOrchestrating (ui w')" "plan_calls w' = plan_calls w"
    "map action (timers w') = [Orchestration, Discovery, Distribution, Execution, Completion]"
  using assms
  by (auto simp add: startSimulation_resume_def andThen_def setTimeout_def split: sum.splits)

text \<open>The definitions that evaluate a run on concrete inputs.\<close>

lemmas eval_defs =
  andThen_def mounted_def resetSimulation_def addLog_def initialAgents_def initial_mesh_def
  startSimulation_begin_def startSimulation_resume_def callGeminiOrchestrator_def
  orchestrator_try_def offline_def unreachable_def mapPlan_def plan_agent_def fallbackPlan_def
  plan_entry_def patch_slot_def setTimeout_def run_callback_def step_orchestration_def
  step_discovery_def step_distribution_def step_execution_def step_completion_def
  updateAgentStatus_def set_status_def role_names_def plan_specialty_def task_line_def
  join_values_def Let_def

section \<open>The five agents\<close>

lemma five_agents_initial: "five_agents initialAgents"
  by (simp add: five_agents_def initialAgents_def)

lemma five_agents_set_status [simp]: "five_agents (set_status i st xs) = five_agents xs"
  by (simp add: five_agents_def set_status_def comp_def if_distrib cong: if_cong)

lemma five_agents_success: "five_agents (map (\<lambda>a. a\<lparr>status := success\<rparr>) xs) = five_agents xs"
  by (simp add: five_agents_def comp_def)

lemma five_agents_length: "five_agents xs \<Longrightarrow> length xs = 5"
proof -
  assume "five_agents xs"
  then have "length (map agent_id xs) = 5" by (simp add: five_agents_def)
  then show ?thesis by simp
qed

lemma patch_slot_fields:
  assumes "patch_slot i entry xs = Inr ys"
  shows "map agent_id ys = map agent_id xs" "map agent_type ys = map agent_type xs"
        "map status ys = map status xs" "map pos_x ys = map pos_x xs" "map pos_y ys = map pos_y xs"
proof -
  have "ys = xs \<or> (i < length xs \<and> (\<exists>n sp t.
          ys = xs[i := (xs ! i)\<lparr>name := n, specialty := sp, currentTask := t\<rparr>]))"
    using assms by (auto simp add: patch_slot_def andThen_def split: if_splits sum.splits)
  then show "map agent_id ys = map agent_id xs" "map agent_type ys = map agent_type xs"
        "map status ys = map status xs" "map pos_x ys = map pos_x xs" "map pos_y ys = map pos_y xs"
    by (auto simp add: map_update list_update_same_conv)
qed

lemma mapPlan_fields:
  assumes "mapPlan plan xs = Inr ys"
  shows "map agent_id ys = map agent_id xs" "map agent_type ys = map agent_type xs"
        "map status ys = map status xs" "map pos_x ys = map pos_x xs" "map pos_y ys = map pos_y xs"
proof -
  obtain e0 a1 e1 a2 e2 where
    "patch_slot 1 e0 xs = Inr a1" "patch_slot 2 e1 a1 = Inr a2" "patch_slot 3 e2 a2 = Inr ys"
    using assms by (auto simp add: mapPlan_def andThen_def split: sum.splits)
  then show "map agent_id ys = map agent_id xs" "map agent_type ys = map agent_type xs"
        "map status ys = map status xs" "map pos_x ys = map pos_x xs" "map pos_y ys = map pos_y xs"
    by (simp_all add: patch_slot_fields)
qed

lemma mapPlan_five_agents: "mapPlan plan xs = Inr ys \<Longrightarrow> five_agents ys = five_agents xs"
  by (simp add: five_agents_def mapPlan_fields)

lemma run_callback_five_agents:
  "five_agents (agents (run_callback E c1 c2 t s)) = five_agents (agents s)"
  by (cases "action t")
    (simp_all add: run_callback_def step_orchestration_proj step_discovery_proj
      step_distribution_proj step_execution_proj step_completion_proj five_agents_success)

lemma step_five_agents:
  assumes "step E ev w = Inr w'" and "five_agents (agents (ui w))"
  shows "five_agents (agents (ui w'))"
proof (cases ev)
  case (PlanReturns f)
  then obtain plan rest where "startSimulation_resume plan (w\<lparr>plan_calls := rest\<rparr>) = Inr w'"
    using assms(1) by (auto split: list.splits option.splits)
  then have "mapPlan plan (agents (ui w)) = Inr (agents (ui w'))"
    using startSimulation_resume_agents by fastforce
  then show ?thesis using assms(2) by (simp add: mapPlan_five_agents)
next
  case (TimerFires c1 c2)
  then show ?thesis
    using assms by (auto simp add: run_callback_five_agents split: list.splits if_splits)
next
  case (ClickReset c)
  then show ?thesis
    using assms by (auto simp add: resetSimulation_proj five_agents_initial)
next
  case (SummaryReturns f)
  then show ?thesis
    using assms by (auto simp add: generateReport_resume_def split: list.splits option.splits)
qed (use assms in \<open>auto simp add: generateReport_begin_def split: if_splits\<close>)

lemma run_five_agents:
  "run E evs w = Inr w' \<Longrightarrow> five_agents (agents (ui w)) \<Longrightarrow> five_agents (agents (ui w'))"
proof (induction evs arbitrary: w)
  case Nil
  then show ?case by simp
next
  case (Cons ev evs)
  then obtain w1 where s: "step E ev w = Inr w1" and r: "run E evs w1 = Inr w'"
    by (auto simp add: andThen_def split: sum.splits)
  from s Cons.prems(2) have "five_agents (agents (ui w1))" by (rule step_five_agents)
  with r show ?case by (rule Cons.IH)
qed

lemma mounted_five_agents: "five_agents (agents (ui (mounted c)))"
  by (simp add: mounted_def resetSimulation_proj five_agents_initial)

lemma whole_run_eval:
  "\<exists>w. run offline whole_run (mounted noon) = Inr w \<and> simulationStep (ui w) = 5 \<and>
     clock w = 11500 \<and> timers w = [Timer 11500 Completion fallbackPlan] \<and>
     map status (agents (ui w)) = [communicating, communicating, working, working, working]"
  by (simp add: whole_run_def eval_defs)

text \<open>
  C2.  The mounted component has the five agents, with the ids \<open>1\<close> to \<open>5\<close> in this order
  and the roles Orchestrator, Specialist, Specialist, Worker, Worker; a reset puts them
  there from any state; mapping a plan and setting a status keep them; every event that
  the component goes through keeps them; so every state reached from the mounted
  component has them.
\<close>

theorem agents_invariant:
  "five_agents (agents (ui (mounted c))) \<and>
   five_agents (agents (resetSimulation c s)) \<and>
   (mapPlan plan xs = Inr ys \<longrightarrow> five_agents ys = five_agents xs) \<and>
   five_agents (set_status i st xs) = five_agents xs \<and>
   (five_agents (agents (ui w)) \<and> step E ev w = Inr w' \<longrightarrow> five_agents (agents (ui w'))) \<and>
   (run E evs (mounted c) = Inr w' \<longrightarrow> five_agents (agents (ui w')))"
  using step_five_agents [of E ev w w'] run_five_agents [of E evs "mounted c" w']
    mapPlan_five_agents [of plan xs ys]
  by (simp add: mounted_five_agents resetSimulation_proj five_agents_initial)

theorem agents_invariant_witness:
  "mapPlan fallbackPlan initialAgents \<noteq> Inl TypeError \<and>
   (\<exists>ys. mapPlan fallbackPlan initialAgents = Inr ys \<and> five_agents ys) \<and>
   (\<exists>w'. step offline (ClickReset noon) (mounted noon) = Inr w' \<and> five_agents (agents (ui w'))) \<and>
   (\<exists>w'. run offline whole_run (mounted noon) = Inr w' \<and> five_agents (agents (ui w')))"
proof -
  obtain ys where ys: "mapPlan fallbackPlan initialAgents = Inr ys"
    by (simp add: eval_defs)
  obtain w1 where w1: "step offline (ClickReset noon) (mounted noon) = Inr w1"
    by simp
  obtain w2 where w2: "run offline whole_run (mounted noon) = Inr w2"
    using whole_run_eval by blast
  show ?thesis
    using ys w1 w2 five_agents_initial
      agents_invariant [of noon initial_mesh fallbackPlan initialAgents ys "''1''" idle
        "mounted noon" offline "ClickReset noon" w1 "[]"]
      agents_invariant [of noon initial_mesh fallbackPlan initialAgents ys "''1''" idle
        "mounted noon" offline "ClickReset noon" w2 whole_run]
    by auto
qed

section \<open>The log is capped in every reachable state\<close>

lemma logs_updateAgentStatus [simp]: "logs (updateAgentStatus i st s) = logs s"
  by (simp add: updateAgentStatus_def)

lemma run_callback_logs:
  "length (logs s) \<le> 8 \<Longrightarrow> length (logs (run_callback E c1 c2 t s)) \<le> 8"
  by (cases "action t")
    (auto simp add: run_callback_def step_orchestration_def step_discovery_def
      step_distribution_def step_execution_def step_completion_def Let_def addLog_length
      split: sum.split prod.split)

lemma startSimulation_resume_logs:
  "startSimulation_resume plan w = Inr w' \<Longrightarrow> logs (ui w') = logs (ui w)"
  by (auto simp add: startSimulation_resume_def andThen_def split: sum.splits)

lemma step_logs:
  assumes "step E ev w = Inr w'" and "length (logs (ui w)) \<le> 8"
  shows "length (logs (ui w')) \<le> 8"
proof (cases ev)
  case (ClickStart c1 c2)
  then show ?thesis
    using assms by (auto simp add: startSimulation_begin_def addLog_length split: if_splits)
next
  case (PlanReturns f)
  then obtain plan rest where "startSimulation_resume plan (w\<lparr>plan_calls := rest\<rparr>) = Inr w'"
    using assms(1) by (auto split: list.splits option.splits)
  then have "logs (ui w') = logs (ui w)"
    using startSimulation_resume_logs by fastforce
  then show ?thesis using assms(2) by simp
next
  case (TimerFires c1 c2)
  then show ?thesis
    using assms by (auto simp add: run_callback_logs split: list.splits if_splits)
next
  case (ClickReset c)
  then show ?thesis
    using assms by (auto simp add: resetSimulation_def addLog_length)
next
  case (SummaryReturns f)
  then show ?thesis
    using assms by (auto simp add: generateReport_resume_def split: list.splits option.splits)
qed (use assms in \<open>auto simp add: generateReport_begin_def split: if_splits\<close>)

lemma run_logs:
  "run E evs w = Inr w' \<Longrightarrow> length (logs (ui w)) \<le> 8 \<Longrightarrow> length (logs (ui w')) \<le> 8"
proof (induction evs arbitrary: w)
  case Nil
  then show ?case by simp
next
  case (Cons ev evs)
  then obtain w1 where s: "step E ev w = Inr w1" and r: "run E evs w1 = Inr w'"
    by (auto simp add: andThen_def split: sum.splits)
  from s Cons.prems(2) have "length (logs (ui w1)) \<le> 8" by (rule step_logs)
  with r show ?case by (rule Cons.IH)
qed

lemma mounted_logs: "length (logs (ui (mounted c))) \<le> 8"
  by (simp add: mounted_def resetSimulation_def addLog_length)

text \<open>
  C3.  \<^verbatim>\<open>addLog\<close> puts the new entry at the front and keeps the first eight entries, so
  the log has at most eight entries after it, whatever the state before; after any
  sequence of appends the log has at most eight entries (after at least one append, or
  from a state whose log had at most eight); and the log has at most eight entries in
  every state reached from the mounted component.
\<close>

theorem log_capped:
  "logs (addLog c src msg s) =
     take 8 (\<lparr>log_id = of_int (date_now c) + math_random c, source = src, message = msg,
              timestamp = timeString c\<rparr> # logs s) \<and>
   length (logs (addLog c src msg s)) \<le> 8 \<and>
   (ops \<noteq> [] \<or> length (logs s) \<le> 8 \<longrightarrow> length (logs (addLogs ops s)) \<le> 8) \<and>
   (run E evs (mounted c0) = Inr w \<longrightarrow> length (logs (ui w)) \<le> 8)"
  using addLogs_length [of ops s] run_logs [of E evs "mounted c0" w, OF _ mounted_logs]
  by (simp add: addLog_def)

theorem log_capped_witness:
  "replicate 10 (noon, Str ''Mesh'', ''line'') \<noteq> [] \<and>
   length (logs (addLogs (replicate 10 (noon, Str ''Mesh'', ''line'')) initial_mesh)) \<le> 8 \<and>
   (\<exists>w. run offline whole_run (mounted noon) = Inr w \<and> length (logs (ui w)) \<le> 8)"
proof -
  obtain w where w: "run offline whole_run (mounted noon) = Inr w"
    using whole_run_eval by blast
  show ?thesis
    using w log_capped [of noon "Str ''Mesh''" "''line''" initial_mesh
        "replicate 10 (noon, Str ''Mesh'', ''line'')" offline whole_run noon w]
    by auto
qed

section \<open>Completion\<close>

text \<open>
  C1.  When the timer of the completion step is the next one and is due, it fires, the
  stage becomes 6 and every agent of the list has the status \<open>success\<close>, whatever the
  plan (and so the mission) of the run; with the five agents before, these are the five
  agents.
\<close>

theorem completion_marks_success:
  assumes "timers w = t # rest" and "action t = Completion" and "due t \<le> clock w"
  shows "\<exists>w'. step E (TimerFires c1 c2) w = Inr w' \<and>
           simulationStep (ui w') = 6 \<and>
           map status (agents (ui w')) = replicate (length (agents (ui w))) success \<and>
           (five_agents (agents (ui w)) \<longrightarrow>
              five_agents (agents (ui w')) \<and>
              map status (agents (ui w')) = [success, success, success, success, success])"
proof -
  have "map status (map (\<lambda>a. a\<lparr>status := success\<rparr>) xs) = replicate (length xs) success"
    for xs :: "Agent list"
    by (induction xs) simp_all
  moreover have "replicate (length xs) success = [success, success, success, success, success]"
    if "five_agents xs" for xs
    using five_agents_length [OF that] by (simp add: numeral_eq_Suc)
  ultimately show ?thesis
    using assms
    by (simp add: run_callback_def step_completion_proj five_agents_success)
qed

theorem completion_marks_success_witness:
  "\<exists>w w'. run offline whole_run (mounted noon) = Inr w \<and>
     timers w = [Timer 11500 Completion fallbackPlan] \<and> clock w = 11500 \<and>
     five_agents (agents (ui w)) \<and>
     step offline (TimerFires noon noon) w = Inr w' \<and> simulationStep (ui w') = 6 \<and>
     map status (agents (ui w')) = [success, success, success, success, success]"
proof -
  obtain w where w: "run offline whole_run (mounted noon) = Inr w"
    "timers w = [Timer 11500 Completion fallbackPlan]" "clock w = 11500"
    using whole_run_eval by blast
  have five: "five_agents (agents (ui w))"
    using w(1) mounted_five_agents by (rule run_five_agents)
  have "due (Timer 11500 Completion fallbackPlan) \<le> clock w" by (simp add: w(3))
  from completion_marks_success [OF w(2) _ this, of offline noon noon] five w
  show ?thesis by auto
qed

text \<open>
  A whole run, for any mission that is not empty, any plan the provider returns and
  that maps onto the template agents, and any clock readings: the mission is typed, the
  run is started, the plan returns, 11500 ms pass and the five timers fire; the stage is
  then 6, the five agents have the status \<open>success\<close> and no timer is left.
\<close>

lemma mounted_flags:
  "\<not> isSimulating (ui (mounted c))" "\<not> isOrchestrating (ui (mounted c))"
  "agents (ui (mounted c)) = initialAgents" "timers (mounted c) = []" "clock (mounted c) = 0"
  "plan_calls (mounted c) = []"
  by (simp_all add: mounted_def resetSimulation_proj initial_mesh_def)

lemma every_mission_completes:
  assumes m: "m \<noteq> []" and plan: "callGeminiOrchestrator E f m = Some plan"
    and mapped: "mapPlan plan initialAgents = Inr ys"
  shows "\<exists>w. run E (one_run m cs f) (mounted c) = Inr w \<and> simulationStep (ui w) = 6 \<and>
           map status (agents (ui w)) = [success, success, success, success, success] \<and>
           \<not> isSimulating (ui w) \<and> timers w = []"
proof -
  have len: "length ys = 5"
    using mapPlan_fields(1) [OF mapped] length_map [of agent_id ys]
    by (simp add: initialAgents_def)
  have st: "map (status \<circ> (\<lambda>a. a\<lparr>status := success\<rparr>)) xs = replicate (length xs) success"
    for xs :: "Agent list"
    by (induction xs) simp_all
  have r5: "replicate 5 success = [success, success, success, success, success]"
    by (simp add: numeral_eq_Suc)
  have len': "length (set_status i s xs) = length xs" for i s xs
    by (simp add: set_status_def)
  show ?thesis
    using m plan mapped
    by (simp add: one_run_def andThen_def mounted_flags startSimulation_begin_def
        startSimulation_resume_def setTimeout_def run_callback_def step_orchestration_proj
        step_discovery_proj step_distribution_proj step_execution_proj step_completion_proj
        st len' len r5)
qed

section \<open>The plan provider\<close>

lemma response_text_reply: "response_text (reply part) = get_prop part ''text''"
  by (simp add: response_text_def reply_def andThen_def)

lemma plan_agent_fallback:
  "plan_agent fallbackPlan 0 = Inr (plan_entry ''Logic Bot'' ''Planning'' ''Analyzing requirements'')"
  "plan_agent fallbackPlan 1 = Inr (plan_entry ''Resource Bot'' ''Logistics'' ''Gathering resources'')"
  "plan_agent fallbackPlan 2 = Inr (plan_entry ''Review Bot'' ''Quality Control'' ''Verifying output'')"
  by (simp_all add: plan_agent_def fallbackPlan_def andThen_def)

lemma patch_slot_entry:
  "i < length xs \<Longrightarrow>
   patch_slot i (plan_entry n sp t) xs =
     Inr (xs[i := (xs ! i)\<lparr>name := Str n, specialty := Str sp, currentTask := Str t\<rparr>])"
  by (simp add: patch_slot_def plan_entry_def andThen_def)

lemma mapPlan_fallback:
  assumes "3 < length xs"
  shows "mapPlan fallbackPlan xs =
     Inr (xs[1 := with_plan_entry ''Logic Bot'' ''Planning'' ''Analyzing requirements'' (xs ! 1),
             2 := with_plan_entry ''Resource Bot'' ''Logistics'' ''Gathering resources'' (xs ! 2),
             3 := with_plan_entry ''Review Bot'' ''Quality Control'' ''Verifying output'' (xs ! 3)])"
proof -
  let ?a1 = "xs[1 := with_plan_entry ''Logic Bot'' ''Planning'' ''Analyzing requirements'' (xs ! 1)]"
  let ?a2 = "?a1[2 := with_plan_entry ''Resource Bot'' ''Logistics'' ''Gathering resources'' (xs ! 2)]"
  have p1: "patch_slot 1 (plan_entry ''Logic Bot'' ''Planning'' ''Analyzing requirements'') xs = Inr ?a1"
    using assms by (simp only: patch_slot_entry with_plan_entry_def)
  have p2: "patch_slot 2 (plan_entry ''Resource Bot'' ''Logistics'' ''Gathering resources'') ?a1 = Inr ?a2"
    using assms by (simp add: patch_slot_entry with_plan_entry_def)
  have p3: "patch_slot 3 (plan_entry ''Review Bot'' ''Quality Control'' ''Verifying output'') ?a2 =
      Inr (?a2[3 := with_plan_entry ''Review Bot'' ''Quality Control'' ''Verifying output'' (xs ! 3)])"
    using assms by (simp add: patch_slot_entry with_plan_entry_def)
  show ?thesis
    unfolding mapPlan_def plan_agent_fallback by (simp only: andThen_def sum.case p1 p2 p3)
qed

lemma plan_call_fails_iff:
  "plan_call_fails E f m \<longleftrightarrow> (\<exists>e. orchestrator_try E f m = Some (Inl e))"
  by (auto simp add: plan_call_fails_def orchestrator_try_def JSON_parse_def andThen_def
      split: promise.splits sum.splits option.splits)

lemma plan_call_fails_fallback:
  "plan_call_fails E f m \<Longrightarrow> callGeminiOrchestrator E f m = Some fallbackPlan"
  by (auto simp add: plan_call_fails_iff callGeminiOrchestrator_def)

lemma three_records_fallback: "three_records fallbackPlan"
  by (simp add: three_records_def fallbackPlan_def is_record_def plan_entry_def)

text \<open>
  C4.  When the remote plan call fails (no key, a rejected request, a response that is
  not a success, an unreadable body, a body without the text, a text that is not JSON),
  \<^verbatim>\<open>callGeminiOrchestrator\<close> returns the fallback plan; and mapping it onto a list with
  at least four agents succeeds and gives the agents at positions 1, 2 and 3 (ids 2, 3
  and 4) the names, specialties and tasks Logic Bot / Planning / Analyzing requirements,
  Resource Bot / Logistics / Gathering resources and Review Bot / Quality Control /
  Verifying output, leaving everything else of the list as it was.
\<close>

theorem plan_failure_uses_fallback:
  assumes "plan_call_fails E f m" and "3 < length (agents (ui w))"
  shows "callGeminiOrchestrator E f m = Some fallbackPlan \<and>
    (\<exists>w'. startSimulation_resume fallbackPlan w = Inr w' \<and>
       agents (ui w') = (agents (ui w))
         [1 := with_plan_entry ''Logic Bot'' ''Planning'' ''Analyzing requirements'' (agents (ui w) ! 1),
          2 := with_plan_entry ''Resource Bot'' ''Logistics'' ''Gathering resources'' (agents (ui w) ! 2),
          3 := with_plan_entry ''Review Bot'' ''Quality Control'' ''Verifying output'' (agents (ui w) ! 3)] \<and>
       name (agents (ui w') ! 1) = Str ''Logic Bot'' \<and>
       specialty (agents (ui w') ! 1) = Str ''Planning'' \<and>
       currentTask (agents (ui w') ! 1) = Str ''Analyzing requirements'' \<and>
       name (agents (ui w') ! 2) = Str ''Resource Bot'' \<and>
       specialty (agents (ui w') ! 2) = Str ''Logistics'' \<and>
       currentTask (agents (ui w') ! 2) = Str ''Gathering resources'' \<and>
       name (agents (ui w') ! 3) = Str ''Review Bot'' \<and>
       specialty (agents (ui w') ! 3) = Str ''Quality Control'' \<and>
       currentTask (agents (ui w') ! 3) = Str ''Verifying output'')"
  using assms
  by (simp add: plan_call_fails_fallback startSimulation_resume_def mapPlan_fallback andThen_def
      setTimeout_def with_plan_entry_def)

theorem plan_failure_uses_fallback_witness:
  "plan_call_fails offline unreachable ''Plan a 3-day trip to Tokyo'' \<and>
   3 < length (agents (ui (mounted noon))) \<and>
   callGeminiOrchestrator offline unreachable ''Plan a 3-day trip to Tokyo'' = Some fallbackPlan \<and>
   (\<exists>w'. startSimulation_resume fallbackPlan (mounted noon) = Inr w' \<and>
      map name (agents (ui w')) =
        [Str ''Orchestrator'', Str ''Logic Bot'', Str ''Resource Bot'', Str ''Review Bot'',
         Str ''Support Bot''])"
proof -
  have a: "plan_call_fails offline unreachable ''Plan a 3-day trip to Tokyo''"
    by (simp add: plan_call_fails_def offline_def)
  have b: "3 < length (agents (ui (mounted noon)))"
    by (simp add: mounted_def resetSimulation_proj initialAgents_def)
  have c: "agents (ui (mounted noon)) = initialAgents"
    by (simp add: mounted_def resetSimulation_proj)
  from plan_failure_uses_fallback [OF a b] show ?thesis
    using a b by (auto simp add: c initialAgents_def with_plan_entry_def)
qed

text \<open>
  C6, as the code has it.  The fallback plan has exactly three records.  When the call
  returns a value, the value is the fallback plan as a whole or it is what \<^verbatim>\<open>JSON.parse\<close>
  made of the text of a successful response, of whatever shape, unchanged; the two are
  never mixed.  The call returns whenever the request and the reading of the body
  settle.
\<close>

theorem plan_parsed_or_fallback:
  "three_records fallbackPlan \<and>
   (callGeminiOrchestrator E f m = Some v \<longrightarrow>
      v = fallbackPlan \<or>
      (\<exists>r data t. apiKey E \<noteq> [] \<and>
         f \<lparr>url = endpoint @ apiKey E, prompt = systemPrompt m, json_mode = True\<rparr> = Resolves r \<and>
         ok r \<and> json r = Resolves data \<and> response_text data = Inr t \<and>
         parse_text E (ToString E t) = Some v)) \<and>
   (f \<lparr>url = endpoint @ apiKey E, prompt = systemPrompt m, json_mode = True\<rparr> \<noteq> NeverSettles \<and>
    (\<forall>r. f \<lparr>url = endpoint @ apiKey E, prompt = systemPrompt m, json_mode = True\<rparr> = Resolves r \<longrightarrow>
         json r \<noteq> NeverSettles) \<longrightarrow>
      (\<exists>v. callGeminiOrchestrator E f m = Some v))"
  by (auto simp add: three_records_fallback callGeminiOrchestrator_def orchestrator_try_def
      JSON_parse_def andThen_def split: if_splits promise.splits sum.splits option.splits)

theorem plan_parsed_or_fallback_witness:
  "callGeminiOrchestrator solo_env solo_fetch [] = Some solo_plan \<and>
   (solo_plan = fallbackPlan \<or>
      (\<exists>r data t. apiKey solo_env \<noteq> [] \<and>
         solo_fetch \<lparr>url = endpoint @ apiKey solo_env, prompt = systemPrompt [], json_mode = True\<rparr> = Resolves r \<and>
         ok r \<and> json r = Resolves data \<and> response_text data = Inr t \<and>
         parse_text solo_env (ToString solo_env t) = Some solo_plan))"
proof -
  have h: "callGeminiOrchestrator solo_env solo_fetch [] = Some solo_plan"
    by (simp add: callGeminiOrchestrator_def orchestrator_try_def solo_env_def solo_fetch_def
      response_text_reply JSON_parse_def andThen_def)
  show ?thesis using h plan_parsed_or_fallback [of solo_env solo_fetch "[]" solo_plan] by blast
qed

text \<open>
  C6, as stated, fails: for a successful response whose text is the JSON of an object
  with a single record that has only a name, the call returns that object, which is
  neither three records nor the fallback plan.
\<close>

theorem plan_shape_counterexample:
  "callGeminiOrchestrator solo_env solo_fetch ''Plan a 3-day trip to Tokyo'' = Some solo_plan \<and>
   \<not> three_records solo_plan \<and> solo_plan \<noteq> fallbackPlan"
  by (simp add: callGeminiOrchestrator_def orchestrator_try_def solo_env_def solo_fetch_def
      response_text_reply JSON_parse_def andThen_def three_records_def solo_plan_def fallbackPlan_def)

section \<open>The summary provider\<close>

lemma summary_fallback:
  "summary_try E f ls = Some (Inl e) \<Longrightarrow> callGeminiSummary E f ls = Some (Str fallbackSummary)"
  by (simp add: callGeminiSummary_def)

lemma summary_no_key:
  "apiKey E = [] \<Longrightarrow> callGeminiSummary E f ls = Some (Str fallbackSummary)"
  by (simp add: callGeminiSummary_def summary_try_def)

text \<open>
  C9 at an input where the code departs from it.  With a key, a response that is not a
  success and whose body carries a text makes \<^verbatim>\<open>callGeminiSummary\<close> return that text,
  where \<^verbatim>\<open>callGeminiOrchestrator\<close> returns its fallback for the same response; and a
  successful response whose part has no text makes it return \<^verbatim>\<open>undefined\<close>.
\<close>

theorem summary_ignores_status:
  "callGeminiSummary keyed gateway_error ls = Some (Str ''partial'') \<and>
   Str ''partial'' \<noteq> Str fallbackSummary \<and>
   callGeminiOrchestrator keyed gateway_error m = Some fallbackPlan \<and>
   callGeminiSummary keyed textless ls = Some Undefined"
  by (simp add: callGeminiSummary_def summary_try_def callGeminiOrchestrator_def orchestrator_try_def
      keyed_def gateway_error_def textless_def response_text_reply fallbackSummary_def)

section \<open>Reset\<close>

text \<open>
  C8, as the code has it.  After a reset, from any state, the log has exactly one entry,
  from the source \<open>System\<close> with the message \<open>Agentic Mesh Online. Enter a mission to
  begin.\<close>, the five agents are idle and the stage is 0.
\<close>

theorem reset_leaves_one_entry:
  "logs (resetSimulation c s) =
     [\<lparr>log_id = of_int (date_now c) + math_random c, source = Str ''System'',
       message = ''Agentic Mesh Online. Enter a mission to begin.'', timestamp = timeString c\<rparr>] \<and>
   map status (agents (resetSimulation c s)) = [idle, idle, idle, idle, idle] \<and>
   simulationStep (resetSimulation c s) = 0"
  by (simp add: resetSimulation_def addLog_def initialAgents_def)

text \<open>
  C8, as stated, fails on the message: after a reset of the initial state the message
  of the entry is not \<open>System Online...\<close> and does not begin with \<open>System Online\<close>.
\<close>

theorem reset_message_counterexample:
  "logs (resetSimulation noon initial_mesh) \<noteq> [] \<and>
   message (hd (logs (resetSimulation noon initial_mesh))) \<noteq> ''System Online...'' \<and>
   \<not> prefix ''System Online'' (message (hd (logs (resetSimulation noon initial_mesh))))"
  by (simp add: resetSimulation_def addLog_def)

text \<open>
  C7.  A reset leaves the pending timers as they are, while it puts the stage to 0 and
  the agents to their templates.  In the run that starts, gets its plan, is reset and
  waits 1500 ms, the timer of the abandoned run then fires: the stage goes from 0 to 2,
  agent 1 becomes \<open>working\<close> and a second entry is added to the log.
\<close>

theorem reset_keeps_timers:
  "(\<exists>w'. step E (ClickReset c) w = Inr w' \<and> timers w' = timers w \<and>
      simulationStep (ui w') = 0 \<and> agents (ui w') = initialAgents) \<and>
   (\<exists>w1 w2. run offline abandoned_run (mounted noon) = Inr w1 \<and>
      simulationStep (ui w1) = 0 \<and> agents (ui w1) = initialAgents \<and> length (logs (ui w1)) = 1 \<and>
      step offline (TimerFires noon noon) w1 = Inr w2 \<and>
      simulationStep (ui w2) = 2 \<and> status (agents (ui w2) ! 0) = working \<and>
      length (logs (ui w2)) = 2)"
  by (simp add: resetSimulation_proj) (simp add: abandoned_run_def eval_defs)

section \<open>The busy guard\<close>

lemma run_inv_mounted: "run_inv (mounted c)"
  by (simp add: run_inv_def mounted_def resetSimulation_proj initial_mesh_def resetSimulation_def addLog_def)

lemma step_run_inv:
  assumes "step E ev w = Inr w'" and "run_inv w"
  shows "run_inv w'"
proof (cases ev)
  case (Elapse d)
  then show ?thesis using assms by (auto simp add: run_inv_def)
next
  case (ClickStart c1 c2)
  then show ?thesis
    using assms by (auto simp add: run_inv_def startSimulation_begin_def split: if_splits)
next
  case (PlanReturns f)
  then obtain plan mission rest where pc: "plan_calls w = mission # rest"
    and res: "startSimulation_resume plan (w\<lparr>plan_calls := rest\<rparr>) = Inr w'"
    using assms(1) by (auto split: list.splits option.splits)
  from pc assms(2) have rest: "rest = []" and idle: "timers w = []"
    by (auto simp add: run_inv_def)
  have t: "timers (w\<lparr>plan_calls := rest\<rparr>) = []" using idle by simp
  note sh = startSimulation_resume_shape [OF res t]
  have "timers w' \<noteq> []" using sh(4) by auto
  moreover have "action (last (timers w')) = Completion"
    using sh(4) \<open>timers w' \<noteq> []\<close> last_map [of "timers w'" action] by simp
  moreover have "Completion \<notin> action ` set (butlast (timers w'))"
    using sh(4) map_butlast [of action "timers w'"] image_set [of action "butlast (timers w')"] by simp
  ultimately show ?thesis using sh(1,2,3) rest by (simp add: run_inv_def)
next
  case (TimerFires c1 c2)
  then obtain t rest where tm: "timers w = t # rest" and d: "due t \<le> clock w"
    and w': "w' = w\<lparr>ui := run_callback E c1 c2 t (ui w), timers := rest\<rparr>"
    using assms(1) by (auto split: list.splits if_splits)
  from tm assms(2) have sim: "isSimulating (ui w)" by (auto simp add: run_inv_def)
  show ?thesis
  proof (cases "action t = Completion")
    case True
    have "rest = []"
    proof (rule ccontr)
      assume "rest \<noteq> []"
      then have "t \<in> set (butlast (timers w))" using tm by simp
      then have "action t \<in> action ` set (butlast (timers w))" by (rule imageI)
      then show False using True sim assms(2) by (simp add: run_inv_def)
    qed
    then show ?thesis
      using assms(2) w' True by (simp add: run_inv_def run_callback_flags)
  next
    case False
    have ne: "rest \<noteq> []"
    proof
      assume "rest = []"
      then have "last (timers w) = t" using tm by simp
      then show False using False sim assms(2) by (auto simp add: run_inv_def)
    qed
    then have "last (timers w) = last rest" "set (butlast rest) \<subseteq> set (butlast (timers w))"
      using tm by auto
    then show ?thesis
      using assms(2) w' False sim ne by (auto simp add: run_inv_def run_callback_flags)
  qed
next
  case (ClickReset c)
  then show ?thesis using assms by (auto simp add: run_inv_def resetSimulation_proj)
next
  case (TypeMission m)
  then show ?thesis using assms by (auto simp add: run_inv_def split: if_splits)
next
  case (ClickAgent i)
  then show ?thesis using assms by (auto simp add: run_inv_def split: if_splits)
next
  case CloseDetails
  then show ?thesis using assms by (auto simp add: run_inv_def split: if_splits)
next
  case ClickReport
  then show ?thesis
    using assms by (auto simp add: run_inv_def generateReport_begin_def split: if_splits)
next
  case (SummaryReturns f)
  then show ?thesis
    using assms
    by (auto simp add: run_inv_def generateReport_resume_def split: list.splits option.splits)
qed

lemma run_run_inv: "run E evs w = Inr w' \<Longrightarrow> run_inv w \<Longrightarrow> run_inv w'"
proof (induction evs arbitrary: w)
  case Nil
  then show ?case by simp
next
  case (Cons ev evs)
  then obtain w1 where s: "step E ev w = Inr w1" and r: "run E evs w1 = Inr w'"
    by (auto simp add: andThen_def split: sum.splits)
  from s Cons.prems(2) have "run_inv w1" by (rule step_run_inv)
  with r show ?case by (rule Cons.IH)
qed

lemma busy_between_1_and_5:
  assumes "run E evs (mounted c) = Inr w" and "1 \<le> simulationStep (ui w)"
    and "simulationStep (ui w) \<le> 5"
  shows "isSimulating (ui w)"
proof -
  have "run_inv w" using assms(1) run_inv_mounted by (rule run_run_inv)
  then show ?thesis using assms(2,3) by (auto simp add: run_inv_def)
qed

text \<open>
  C5.  In a state where \<^verbatim>\<open>isSimulating\<close> or \<^verbatim>\<open>isOrchestrating\<close> is set, \<^verbatim>\<open>startSimulation\<close>
  returns at its guard and leaves the whole state as it is (agents, log, stage, report,
  timers and pending calls), and the start button is disabled.  In every state reached
  from the mounted component with the stage between 1 and 5, \<^verbatim>\<open>isSimulating\<close> is set, so
  this is the case there.
\<close>

theorem start_while_busy_is_noop:
  "(isSimulating (ui w) \<or> isOrchestrating (ui w) \<longrightarrow>
      startSimulation_begin c1 c2 w = w \<and> step E (ClickStart c1 c2) w = Inl NotEnabled) \<and>
   (run E evs (mounted c) = Inr w \<and> 1 \<le> simulationStep (ui w) \<and> simulationStep (ui w) \<le> 5 \<longrightarrow>
      isSimulating (ui w) \<and> startSimulation_begin c1 c2 w = w)"
  using busy_between_1_and_5 [of E evs c w]
  by (auto simp add: startSimulation_begin_def)

theorem start_while_busy_is_noop_witness:
  "\<exists>w. run offline started (mounted noon) = Inr w \<and> simulationStep (ui w) = 1 \<and>
     isSimulating (ui w) \<and> startSimulation_begin noon noon w = w \<and>
     step offline (ClickStart noon noon) w = Inl NotEnabled"
proof -
  obtain w where w: "run offline started (mounted noon) = Inr w" "simulationStep (ui w) = 1"
    by (simp add: started_def eval_defs)
  then show ?thesis
    using start_while_busy_is_noop [of w noon noon offline started noon] by auto
qed

end
